theory Spec2Isabelle
  imports Main "HOL-Library.Sublist" "HOL-Library.Word" "HOL-Library.Monad_Syntax"
begin

unbundle bit_operations_syntax

section \<open>Data model of the vault service (src/index.js)\<close>

text \<open>
  JavaScript values are modelled as follows. A number that the program uses as an
  identifier, a count or a time stamp is an \<open>int\<close> (all of them stay far below
  \<open>2^53\<close>, where a double is an exact integer). A string is a \<open>string\<close>, one
  \<open>char\<close> for one code unit. An \<open>undefined\<close> or missing object is \<open>None\<close>.
  \<open>throw new Error(msg)\<close> is the value \<open>Inl (Error msg)\<close>.

  The two record types both have a field called \<open>id\<close> in the source; it is written
  \<open>user_id\<close> and \<open>item_id\<close> here, since a record field is a constant and \<open>id\<close> is
  the identity function of HOL.
\<close>

record user =
  user_id :: int
  username :: string
  password :: string
  role :: string

record item =
  item_id :: int
  ownerId :: int
  content :: string
  isPublic :: bool

text \<open>The request context built by \<open>authMiddleware\<close>: \<open>{}\<close> or \<open>{ user: ... }\<close>.\<close>

record req_context =
  user :: "user option"

text \<open>The two module-level arrays \<open>users\<close> and \<open>vault\<close>: the state of the process.\<close>

record store =
  users :: "user list"
  vault :: "item list"

text \<open>The environment variables read at start-up (lines 32 to 34), after defaulting.\<close>

record env =
  SECRET_KEY :: string
  FLAG :: string
  ADMIN_PASSWORD :: string

datatype error = Error string

abbreviation InvalidCredentials :: error where
  "InvalidCredentials \<equiv> Error ''Invalid credentials''"

abbreviation NotAuthenticated :: error where
  "NotAuthenticated \<equiv> Error ''Not authenticated''"

abbreviation ItemNotFound :: error where
  "ItemNotFound \<equiv> Error ''Item not found''"

subsection \<open>The mock database (lines 44 to 55)\<close>

definition seed_users :: "env \<Rightarrow> user list" where
  "seed_users e =
     [\<lparr>user_id = 1, username = ''stewie'', password = ADMIN_PASSWORD e, role = ''admin''\<rparr>,
      \<lparr>user_id = 2, username = ''admin'', password = ''admin'', role = ''admiin''\<rparr>,
      \<lparr>user_id = 3, username = ''user1'', password = ''admin123'', role = ''user''\<rparr>]"

definition seed_vault :: "env \<Rightarrow> item list" where
  "seed_vault e =
     [\<lparr>item_id = 1, ownerId = 1, content = FLAG e, isPublic = False\<rparr>,
      \<lparr>item_id = 2, ownerId = 2, content = ''Nothing to see here'', isPublic = False\<rparr>,
      \<lparr>item_id = 3, ownerId = 1, content = ''Public note'', isPublic = True\<rparr>,
      \<lparr>item_id = 4, ownerId = 1, content = ''FAKE_FLAG{dummy_flag}'', isPublic = False\<rparr>]"

text \<open>
  Start-up: the process exits when \<open>SECRET_KEY\<close> or \<open>FLAG\<close> is missing or empty
  (lines 36 to 39); otherwise the two arrays hold their seed.
\<close>

definition startup :: "env \<Rightarrow> store option" where
  "startup e =
     (if SECRET_KEY e = [] \<or> FLAG e = [] then None
      else Some \<lparr>users = seed_users e, vault = seed_vault e\<rparr>)"

section \<open>Built-in functions of the language that the resolvers call\<close>

subsection \<open>\<open>String.prototype.includes\<close>\<close>

text \<open>
  \<open>s.includes(t)\<close> searches \<open>s\<close> from position 0 for the first position at which
  \<open>t\<close> starts (the \<open>StringIndexOf\<close> operation of the language definition) and is
  true when there is one.
\<close>

fun startsWith :: "string \<Rightarrow> string \<Rightarrow> bool" where
  "startsWith s [] = True"
| "startsWith [] (c # t) = False"
| "startsWith (d # s) (c # t) = (d = c \<and> startsWith s t)"

fun StringIndexOf :: "string \<Rightarrow> string \<Rightarrow> nat \<Rightarrow> nat option" where
  "StringIndexOf [] t k = (if t = [] then Some k else None)"
| "StringIndexOf (d # s) t k =
     (if startsWith (d # s) t then Some k else StringIndexOf s t (Suc k))"

definition str_includes :: "string \<Rightarrow> string \<Rightarrow> bool" where
  "str_includes s t = (StringIndexOf s t 0 \<noteq> None)"

subsection \<open>\<open>String.prototype.replace\<close> with a string pattern\<close>

text \<open>
  \<open>s.replace(pat, rep)\<close> with a string \<open>pat\<close> replaces the first occurrence of
  \<open>pat\<close> in \<open>s\<close>, wherever it is, and leaves \<open>s\<close> as it is when there is none.
\<close>

fun str_replace :: "string \<Rightarrow> string \<Rightarrow> string \<Rightarrow> string" where
  "str_replace [] pat rep = (if pat = [] then rep else [])"
| "str_replace (c # s) pat rep =
     (if startsWith (c # s) pat then rep @ drop (length pat) (c # s)
      else c # str_replace s pat rep)"

subsection \<open>The decimal text of an integer\<close>

text \<open>
  \<open>String(n)\<close> of an integer \<open>n\<close>, which is also what \<open>JSON.stringify\<close> writes
  for it and the text in which an item number reaches a client as the \<open>ID\<close> of the
  item: the decimal digits, after a minus sign when \<open>n\<close> is negative. \<open>decimal\<close>
  writes the digits of a natural number, the first digit first.
\<close>

definition digit_char :: "nat \<Rightarrow> char" where
  "digit_char d = char_of (48 + d)"

definition is_digit :: "char \<Rightarrow> bool" where
  "is_digit c = (48 \<le> (of_char c :: nat) \<and> (of_char c :: nat) \<le> 57)"

fun decimal :: "nat \<Rightarrow> string" where
  "decimal n = (if n < 10 then [digit_char n] else decimal (n div 10) @ [digit_char (n mod 10)])"

definition decimal_text :: "int \<Rightarrow> string" where
  "decimal_text i = (if i < 0 then CHR ''-'' # decimal (nat (- i)) else decimal (nat i))"

subsection \<open>\<open>parseInt\<close>\<close>

text \<open>
  \<open>parseInt(id)\<close> with no radix: leading white space is dropped, one sign is read,
  a prefix \<open>0x\<close> or \<open>0X\<close> selects radix 16 (otherwise 10), and the longest run of
  digits of that radix is the value; with no digit the result is \<open>NaN\<close>, here \<open>None\<close>.
  The value is the exact integer (a double rounds it from \<open>2^53\<close> on).
\<close>

definition isWhiteSpace :: "char \<Rightarrow> bool" where
  "isWhiteSpace c = (c \<in> set [CHR 0x09, CHR 0x0A, CHR 0x0B, CHR 0x0C, CHR 0x0D, CHR 0x20, CHR 0xA0])"

definition digitValue :: "char \<Rightarrow> nat option" where
  "digitValue c =
     (let n = of_char c :: nat in
      if 48 \<le> n \<and> n \<le> 57 then Some (n - 48)
      else if 97 \<le> n \<and> n \<le> 122 then Some (n - 87)
      else if 65 \<le> n \<and> n \<le> 90 then Some (n - 55)
      else None)"

definition isRadixDigit :: "nat \<Rightarrow> char \<Rightarrow> bool" where
  "isRadixDigit R c = (case digitValue c of None \<Rightarrow> False | Some v \<Rightarrow> v < R)"

definition radixValue :: "nat \<Rightarrow> string \<Rightarrow> nat" where
  "radixValue R Z = foldl (\<lambda>a c. a * R + (case digitValue c of None \<Rightarrow> 0 | Some v \<Rightarrow> v)) 0 Z"

definition parseInt :: "string \<Rightarrow> int option" where
  "parseInt inputString =
     (let S = dropWhile isWhiteSpace inputString;
          sign = (if take 1 S = ''-'' then - 1 else 1 :: int);
          S1 = (if take 1 S = ''-'' \<or> take 1 S = ''+'' then drop 1 S else S);
          hex = (take 2 S1 = ''0x'' \<or> take 2 S1 = ''0X'');
          R = (if hex then 16 else 10);
          S2 = (if hex then drop 2 S1 else S1);
          Z = takeWhile (isRadixDigit R) S2
      in if Z = [] then None else Some (sign * int (radixValue R Z)))"

text \<open>
  What may follow the decimal text of an integer in an argument of \<open>parseInt\<close> without
  changing the result: nothing, or a character that is no digit and is not the \<open>x\<close> of
  a prefix \<open>0x\<close>.
\<close>

definition id_end :: "string \<Rightarrow> bool" where
  "id_end r = (case r of [] \<Rightarrow> True
     | c # _ \<Rightarrow> \<not> is_digit c \<and> c \<noteq> CHR ''x'' \<and> c \<noteq> CHR ''X'')"

subsection \<open>\<open>Array.prototype.find\<close>, by position\<close>

text \<open>
  \<open>vault.find(p)\<close> returns the first element that satisfies \<open>p\<close>, or \<open>undefined\<close>.
  The element is an object of the array, and the caller may assign to its fields, so the
  model returns its position.
\<close>

fun findIndex :: "('a \<Rightarrow> bool) \<Rightarrow> 'a list \<Rightarrow> nat option" where
  "findIndex p [] = None"
| "findIndex p (x # xs) =
     (if p x then Some 0 else map_option Suc (findIndex p xs))"

section \<open>The token library (\<open>jsonwebtoken\<close>)\<close>

text \<open>
  Modelled from the spec: the functions \<open>jwt.sign\<close> and \<open>jwt.verify\<close> that \<open>login\<close> and
  \<open>authMiddleware\<close> call belong to the package \<open>jsonwebtoken\<close>, which is not under
  src/. The spec describes them as its Token Service (section 4.1 and section 6): issuing
  produces a signed token that encodes the claims, the signature is one fixed symmetric
  scheme keyed by the process-wide secret, and verification fails when the signature does
  not match, the encoding is malformed or \<open>exp\<close> has passed, and checks nothing else.

  The model is the compact serialisation that the calls of the source select with
  \<open>algorithm: 'HS256'\<close>: three segments joined by dots, the base64url text of the header
  \<open>{"alg":"HS256","typ":"JWT"}\<close>, the base64url text of the claims as a JSON object,
  and the base64url text of the HMAC-SHA-256 of the first two segments under the secret.
  The library adds the claim \<open>iat\<close>, the time of issue in seconds. A string is taken as
  its bytes, one \<open>char\<close> each. The decoder reads the claims object in the form in which
  the encoder writes it, an object of any other form is a malformed token.
\<close>

subsection \<open>base64url, without padding\<close>

text \<open>
  RFC 4648, section 5: three bytes become four characters of the alphabet
  \<open>A-Z a-z 0-9 - _\<close>; one or two bytes left over become two or three characters.
  The decoder refuses a character outside the alphabet and drops left-over bits.
\<close>

definition b64char :: "nat \<Rightarrow> char" where
  "b64char n =
     (if n < 26 then char_of (65 + n)
      else if n < 52 then char_of (71 + n)
      else if n < 62 then char_of (n - 4)
      else if n = 62 then CHR ''-'' else CHR ''_'')"

definition b64value :: "char \<Rightarrow> nat option" where
  "b64value c =
     (let k = of_char c :: nat in
      if 65 \<le> k \<and> k \<le> 90 then Some (k - 65)
      else if 97 \<le> k \<and> k \<le> 122 then Some (k - 71)
      else if 48 \<le> k \<and> k \<le> 57 then Some (k + 4)
      else if k = 45 then Some 62
      else if k = 95 then Some 63
      else None)"

fun sextets :: "nat list \<Rightarrow> nat list" where
  "sextets (a # b # c # r) =
     [a div 4, (a mod 4) * 16 + b div 16, (b mod 16) * 4 + c div 64, c mod 64] @ sextets r"
| "sextets [a, b] = [a div 4, (a mod 4) * 16 + b div 16, (b mod 16) * 4]"
| "sextets [a] = [a div 4, (a mod 4) * 16]"
| "sextets [] = []"

fun octets :: "nat list \<Rightarrow> nat list" where
  "octets (w # x # y # z # r) =
     [w * 4 + x div 16, (x mod 16) * 16 + y div 4, (y mod 4) * 64 + z] @ octets r"
| "octets [w, x, y] = [w * 4 + x div 16, (x mod 16) * 16 + y div 4]"
| "octets [w, x] = [w * 4 + x div 16]"
| "octets [w] = []"
| "octets [] = []"

definition base64url :: "string \<Rightarrow> string" where
  "base64url s = map b64char (sextets (map of_char s))"

definition base64url_decode :: "string \<Rightarrow> string option" where
  "base64url_decode t =
     (if list_all (\<lambda>c. b64value c \<noteq> None) t
      then Some (map char_of (octets (map (\<lambda>c. the (b64value c)) t)))
      else None)"

subsection \<open>JSON text of integers\<close>

text \<open>
  \<open>JSON.parse\<close> reads an integer from its decimal text.
\<close>

definition digit_value :: "char \<Rightarrow> nat" where
  "digit_value c = of_char c - 48"

definition decimal_value :: "string \<Rightarrow> nat" where
  "decimal_value ds = foldl (\<lambda>a c. a * 10 + digit_value c) 0 ds"

text \<open>
  \<open>parse_number\<close> reads a JSON integer at the head of the text and returns it with
  the rest of the text: an optional minus sign, then 0 or a run of digits that does not
  start with 0. A fraction or an exponent is refused.
\<close>

definition parse_number :: "string \<Rightarrow> (int \<times> string) option" where
  "parse_number t =
     (let neg = (take 1 t = ''-'');
          t1 = (if neg then drop 1 t else t);
          ds = takeWhile is_digit t1;
          rest = dropWhile is_digit t1
      in if ds = [] \<or> (hd ds = CHR ''0'' \<and> length ds > 1)
            \<or> take 1 rest = ''.'' \<or> take 1 rest = ''e'' \<or> take 1 rest = ''E''
         then None
         else Some (if neg then - int (decimal_value ds) else int (decimal_value ds), rest))"

text \<open>
  What may follow an integer for \<open>parse_number\<close> to stop there: the end, or a
  character that is no digit and opens no fraction or exponent.
\<close>

definition number_end :: "string \<Rightarrow> bool" where
  "number_end r = (case r of [] \<Rightarrow> True | c # _ \<Rightarrow> \<not> is_digit c \<and> c \<noteq> CHR ''.'' \<and> c \<noteq> CHR ''e'' \<and> c \<noteq> CHR ''E'')"

subsection \<open>JSON text of strings\<close>

text \<open>
  \<open>JSON.stringify\<close> writes a string between double quotes, with a backslash before a
  double quote and a backslash, the short escapes for backspace, tab, line feed, form feed
  and carriage return, and \<open>\u00XX\<close> for every other character below 32.
  \<open>JSON.parse\<close> reads these and the escape of the solidus back, and refuses a raw
  control character.
\<close>

definition hex_char :: "nat \<Rightarrow> char" where
  "hex_char d = (if d < 10 then char_of (48 + d) else char_of (87 + d))"

definition escape_char :: "char \<Rightarrow> string" where
  "escape_char c =
     (if c = CHR 0x22 then [CHR 0x5C, CHR 0x22]
      else if c = CHR 0x5C then [CHR 0x5C, CHR 0x5C]
      else if c = CHR 0x08 then [CHR 0x5C, CHR ''b'']
      else if c = CHR 0x09 then [CHR 0x5C, CHR ''t'']
      else if c = CHR 0x0A then [CHR 0x5C, CHR ''n'']
      else if c = CHR 0x0C then [CHR 0x5C, CHR ''f'']
      else if c = CHR 0x0D then [CHR 0x5C, CHR ''r'']
      else if (of_char c :: nat) < 32
        then [CHR 0x5C, CHR ''u'', CHR ''0'', CHR ''0'',
              hex_char (of_char c div 16), hex_char (of_char c mod 16)]
      else [c])"

definition json_string :: "string \<Rightarrow> string" where
  "json_string s = CHR 0x22 # concat (map escape_char s) @ [CHR 0x22]"

definition simple_escape :: "char \<Rightarrow> char option" where
  "simple_escape e =
     (if e = CHR 0x22 then Some (CHR 0x22)
      else if e = CHR 0x5C then Some (CHR 0x5C)
      else if e = CHR ''/'' then Some (CHR ''/'')
      else if e = CHR ''b'' then Some (CHR 0x08)
      else if e = CHR ''t'' then Some (CHR 0x09)
      else if e = CHR ''n'' then Some (CHR 0x0A)
      else if e = CHR ''f'' then Some (CHR 0x0C)
      else if e = CHR ''r'' then Some (CHR 0x0D)
      else None)"

definition hex4 :: "char \<Rightarrow> char \<Rightarrow> char \<Rightarrow> char \<Rightarrow> nat option" where
  "hex4 h1 h2 h3 h4 =
     (case (digitValue h1, digitValue h2, digitValue h3, digitValue h4) of
        (Some a, Some b, Some c, Some d) \<Rightarrow>
          if a < 16 \<and> b < 16 \<and> c < 16 \<and> d < 16
          then Some (((a * 16 + b) * 16 + c) * 16 + d) else None
      | _ \<Rightarrow> None)"

fun string_body :: "string \<Rightarrow> (string \<times> string) option" where
  "string_body [] = None"
| "string_body (c # r) =
     (if c = CHR 0x22 then Some ([], r)
      else if c = CHR 0x5C then
        (case r of
           [] \<Rightarrow> None
         | e # r' \<Rightarrow>
             if e = CHR ''u'' then
               (case r' of
                  h1 # h2 # h3 # h4 # r'' \<Rightarrow>
                    (case hex4 h1 h2 h3 h4 of
                       None \<Rightarrow> None
                     | Some n \<Rightarrow>
                         if n < 256
                         then map_option (\<lambda>(s, t). (char_of n # s, t)) (string_body r'')
                         else None)
                | _ \<Rightarrow> None)
             else
               (case simple_escape e of
                  None \<Rightarrow> None
                | Some d \<Rightarrow> map_option (\<lambda>(s, t). (d # s, t)) (string_body r')))
      else if (of_char c :: nat) < 32 then None
      else map_option (\<lambda>(s, t). (c # s, t)) (string_body r))"

definition parse_string :: "string \<Rightarrow> (string \<times> string) option" where
  "parse_string t = (case t of [] \<Rightarrow> None | q # r \<Rightarrow> if q = CHR 0x22 then string_body r else None)"

subsection \<open>SHA-256 and HMAC (FIPS 180-4, RFC 2104)\<close>

type_synonym word32 = "32 word"

text \<open>
  The constants of SHA-256 are fractional parts of roots of primes: a round constant is
  the first 32 bits of the fractional part of the cube root of one of the first 64 primes
  (those below 312), and a word of the initial hash value is the first 32 bits of the
  fractional part of the square root of one of the first 8 primes.
  \<open>floor_root k n\<close> is the integer part of the \<open>k\<close>-th root of \<open>n\<close>, for
  \<open>n\<close> below \<open>2 ^ (36 * k)\<close>, found bit by bit from the top.
\<close>

definition is_prime :: "nat \<Rightarrow> bool" where
  "is_prime p = (2 \<le> p \<and> list_all (\<lambda>d. p mod d \<noteq> 0) [2..<p])"

definition primes_below :: "nat \<Rightarrow> nat list" where
  "primes_below n = filter is_prime [0..<n]"

definition floor_root :: "nat \<Rightarrow> nat \<Rightarrow> nat" where
  "floor_root k n = fold (\<lambda>b r. if (r + 2 ^ b) ^ k \<le> n then r + 2 ^ b else r) (rev [0..<36]) 0"

definition K256 :: "word32 list" where
  "K256 = map (\<lambda>p. of_nat (floor_root 3 (p * 2 ^ 96))) (primes_below 312)"

definition H256 :: "word32 list" where
  "H256 = map (\<lambda>p. of_nat (floor_root 2 (p * 2 ^ 64))) [2, 3, 5, 7, 11, 13, 17, 19]"

text \<open>
  The functions of FIPS 180-4 on 32-bit words, the padding of the message to a multiple of
  64 bytes, the 64 words of the schedule of a block and the 64 rounds of the compression.
  Bytes are natural numbers below 256.
\<close>

definition Ch :: "word32 \<Rightarrow> word32 \<Rightarrow> word32 \<Rightarrow> word32" where
  "Ch x y z = (x AND y) XOR (NOT x AND z)"

definition Maj :: "word32 \<Rightarrow> word32 \<Rightarrow> word32 \<Rightarrow> word32" where
  "Maj x y z = (x AND y) XOR (x AND z) XOR (y AND z)"

definition Sigma0 :: "word32 \<Rightarrow> word32" where
  "Sigma0 x = word_rotr 2 x XOR word_rotr 13 x XOR word_rotr 22 x"

definition Sigma1 :: "word32 \<Rightarrow> word32" where
  "Sigma1 x = word_rotr 6 x XOR word_rotr 11 x XOR word_rotr 25 x"

definition sigma0 :: "word32 \<Rightarrow> word32" where
  "sigma0 x = word_rotr 7 x XOR word_rotr 18 x XOR drop_bit 3 x"

definition sigma1 :: "word32 \<Rightarrow> word32" where
  "sigma1 x = word_rotr 17 x XOR word_rotr 19 x XOR drop_bit 10 x"

definition sha256_pad :: "nat list \<Rightarrow> nat list" where
  "sha256_pad m =
     m @ [0x80] @ replicate ((119 - length m mod 64) mod 64) 0
       @ map (\<lambda>i. (8 * length m) div 2 ^ (8 * i) mod 256) [7, 6, 5, 4, 3, 2, 1, 0]"

definition block_words :: "nat list \<Rightarrow> word32 list" where
  "block_words b =
     map (\<lambda>i. of_nat (((b ! (4 * i) * 256 + b ! (4 * i + 1)) * 256 + b ! (4 * i + 2)) * 256
                        + b ! (4 * i + 3))) [0..<16]"

fun schedule :: "nat \<Rightarrow> word32 list \<Rightarrow> word32 list" where
  "schedule 0 W = W"
| "schedule (Suc k) W =
     schedule k (W @ [sigma1 (W ! (length W - 2)) + W ! (length W - 7)
                      + sigma0 (W ! (length W - 15)) + W ! (length W - 16)])"

definition round256 :: "word32 \<times> word32 \<Rightarrow> word32 list \<Rightarrow> word32 list" where
  "round256 kw v =
     (case v of
        [a, b, c, d, e, f, g, h] \<Rightarrow>
          let T1 = h + Sigma1 e + Ch e f g + fst kw + snd kw;
              T2 = Sigma0 a + Maj a b c
          in [T1 + T2, a, b, c, d + T1, e, f, g]
      | _ \<Rightarrow> v)"

definition compress :: "nat list \<Rightarrow> word32 list \<Rightarrow> word32 list" where
  "compress b H = map2 (+) H (fold round256 (zip K256 (schedule 48 (block_words b))) H)"

definition blocks :: "nat list \<Rightarrow> nat list list" where
  "blocks m = map (\<lambda>i. take 64 (drop (64 * i) m)) [0..<length m div 64]"

definition sha256 :: "nat list \<Rightarrow> nat list" where
  "sha256 m =
     concat (map (\<lambda>w. map (\<lambda>i. unat (drop_bit (8 * i) w) mod 256) [3, 2, 1, 0])
               (fold compress (blocks (sha256_pad m)) H256))"

definition hmac_sha256 :: "nat list \<Rightarrow> nat list \<Rightarrow> nat list" where
  "hmac_sha256 key msg =
     (let k0 = (if length key > 64 then sha256 key else key);
          k = k0 @ replicate (64 - length k0) 0
      in sha256 (map (\<lambda>x. x XOR 0x5c) k @ sha256 (map (\<lambda>x. x XOR 0x36) k @ msg)))"

subsection \<open>Signing and verifying\<close>

text \<open>
  The claims that \<open>login\<close> passes to \<open>jwt.sign\<close> are \<open>{ userId, role, exp }\<close>;
  the claims of a token, which \<open>jwt.verify\<close> returns, have \<open>iat\<close> as well. The
  field \<open>role\<close> of the claims is written \<open>role_claim\<close>, since \<open>role\<close> is the
  field of a user. \<open>hs256\<close> is the third segment of a token: the base64url text of
  the HMAC of the first two segments and the dot between them.
\<close>

record jwt_payload =
  userId :: int
  role_claim :: string
  exp :: int

record jwt_decoded = jwt_payload +
  iat :: int

definition hs256 :: "string \<Rightarrow> string \<Rightarrow> string" where
  "hs256 key input = base64url (map char_of (hmac_sha256 (map of_char key) (map of_char input)))"

definition header_json :: string where
  \<open>header_json = ''{"alg":"HS256","typ":"JWT"}''\<close>

definition payload_json :: "jwt_decoded \<Rightarrow> string" where
  \<open>payload_json p =
     ''{"userId":'' @ decimal_text (userId p) @ '',"role":'' @ json_string (role_claim p)
       @ '',"exp":'' @ decimal_text (exp p) @ '',"iat":'' @ decimal_text (iat p) @ ''}''\<close>

definition expect :: "string \<Rightarrow> string \<Rightarrow> string option" where
  "expect lit t = (if take (length lit) t = lit then Some (drop (length lit) t) else None)"

definition parse_header :: "string \<Rightarrow> string option" where
  \<open>parse_header t =
     do { t1 \<leftarrow> expect ''{"alg":'' t;
          (alg, t2) \<leftarrow> parse_string t1;
          if t2 = '',"typ":"JWT"}'' then Some alg else None }\<close>

definition parse_payload :: "string \<Rightarrow> jwt_decoded option" where
  \<open>parse_payload t =
     do { t1 \<leftarrow> expect ''{"userId":'' t;
          (uid, t2) \<leftarrow> parse_number t1;
          t3 \<leftarrow> expect '',"role":'' t2;
          (r, t4) \<leftarrow> parse_string t3;
          t5 \<leftarrow> expect '',"exp":'' t4;
          (e, t6) \<leftarrow> parse_number t5;
          t7 \<leftarrow> expect '',"iat":'' t6;
          (i, t8) \<leftarrow> parse_number t7;
          if t8 = ''}'' then Some \<lparr>userId = uid, role_claim = r, exp = e, iat = i\<rparr> else None }\<close>

fun split_dot :: "string \<Rightarrow> string list" where
  "split_dot [] = [[]]"
| "split_dot (c # r) =
     (if c = CHR ''.'' then [] # split_dot r
      else (case split_dot r of [] \<Rightarrow> [[c]] | p # ps \<Rightarrow> (c # p) # ps))"

text \<open>
  Modelled from the spec: \<open>jwt.sign(payload, secretOrPrivateKey, { algorithm: 'HS256' })\<close>,
  absent from src/. It refuses an empty secret, adds \<open>iat\<close> to the claims and returns the
  three segments. \<open>timestamp\<close> is the clock of the library in seconds.
\<close>

definition jwt_sign :: "jwt_payload \<Rightarrow> string \<Rightarrow> int \<Rightarrow> error + string" where
  "jwt_sign payload secretOrPrivateKey timestamp =
     (if secretOrPrivateKey = [] then Inl (Error ''secretOrPrivateKey must have a value'')
      else
        let securedInput =
              base64url header_json @ ''.'' @
              base64url (payload_json \<lparr>userId = userId payload, role_claim = role_claim payload,
                                        exp = exp payload, iat = timestamp\<rparr>)
        in Inr (securedInput @ ''.'' @ hs256 secretOrPrivateKey securedInput))"

text \<open>
  Modelled from the spec: \<open>jwt.verify(jwtString, secretOrPublicKey, { algorithms: ['HS256'] })\<close>,
  absent from src/. It fails on a text that is not three segments, on segments that do not
  decode to a header and a claims object, on an algorithm other than HS256, on a signature
  that differs from the one computed under the secret, and on a clock that has reached
  \<open>exp\<close>; otherwise it returns the claims.
\<close>

definition jwt_verify :: "string \<Rightarrow> string \<Rightarrow> int \<Rightarrow> error + jwt_decoded" where
  "jwt_verify jwtString secretOrPublicKey clockTimestamp =
     (if jwtString = [] then Inl (Error ''jwt must be provided'')
      else
        (case split_dot jwtString of
           [h, p, sg] \<Rightarrow>
             (case (Option.bind (base64url_decode h) parse_header,
                    Option.bind (base64url_decode p) parse_payload) of
                (Some alg, Some payload) \<Rightarrow>
                  if h = [] \<or> p = [] \<or> base64url_decode sg = None then Inl (Error ''invalid token'')
                  else if sg = [] then Inl (Error ''jwt signature is required'')
                  else if secretOrPublicKey = [] then Inl (Error ''secret or public key must be provided'')
                  else if alg \<noteq> ''HS256'' then Inl (Error ''invalid algorithm'')
                  else if sg \<noteq> hs256 secretOrPublicKey (h @ ''.'' @ p) then Inl (Error ''invalid signature'')
                  else if clockTimestamp \<ge> exp payload then Inl (Error ''jwt expired'')
                  else Inr payload
              | _ \<Rightarrow> Inl (Error ''invalid token''))
         | _ \<Rightarrow> Inl (Error ''jwt malformed'')))"

section \<open>The resolvers (lines 95 to 151)\<close>

text \<open>
  \<open>login\<close>: the first user with this name and password, or \<open>Invalid credentials\<close>.
  The token carries the number and the role of the user and \<open>exp\<close>, one hour after the
  second of \<open>now\<close>, the value that \<open>Date.now()\<close> gives at line 105 (in milliseconds).
  \<open>jwt.sign\<close> is given no time: it reads the clock itself, after line 105, for the claim
  \<open>iat\<close>; \<open>now_sign\<close> is the value of that second reading. The object returned is
  \<open>{ token, user }\<close>; its second field is written \<open>authUser\<close> here.
\<close>

record AuthPayload =
  token :: string
  authUser :: user

definition login :: "env \<Rightarrow> store \<Rightarrow> int \<Rightarrow> int \<Rightarrow> string \<Rightarrow> string \<Rightarrow> error + AuthPayload" where
  "login e s now now_sign username' password' =
     (case find (\<lambda>u. username u = username' \<and> password u = password') (users s) of
        None \<Rightarrow> Inl InvalidCredentials
      | Some u \<Rightarrow>
          (case jwt_sign \<lparr>userId = user_id u, role_claim = role u, exp = now div 1000 + 60 * 60\<rparr>
                  (SECRET_KEY e) (now_sign div 1000) of
             Inl err \<Rightarrow> Inl err
           | Inr t \<Rightarrow> Inr \<lparr>token = t, authUser = u\<rparr>))"

text \<open>
  \<open>vaultItems\<close>: throws without a user; returns the array itself to a user whose role is
  \<open>'admin'\<close>; otherwise the items the user owns or that are public.
\<close>

definition vaultItems :: "store \<Rightarrow> req_context \<Rightarrow> error + item list" where
  "vaultItems s ctx =
     (case user ctx of
        None \<Rightarrow> Inl NotAuthenticated
      | Some u \<Rightarrow>
          if role u = ''admin'' then Inr (vault s)
          else Inr (filter (\<lambda>i. ownerId i = user_id u \<or> isPublic i) (vault s)))"

definition publicVaultItems :: "store \<Rightarrow> item list" where
  "publicVaultItems s = filter (\<lambda>i. isPublic i) (vault s)"

definition searchVault :: "store \<Rightarrow> string \<Rightarrow> req_context \<Rightarrow> item list" where
  "searchVault s searchTerm ctx =
     filter (\<lambda>i. str_includes (content i) searchTerm \<and>
                 (isPublic i \<or> (case user ctx of None \<Rightarrow> False | Some u \<Rightarrow> ownerId i = user_id u)))
       (vault s)"

text \<open>
  \<open>createVaultItem\<close> and \<open>makeVaultItemPublic\<close> change the array: they return the result
  together with the store after the call.
\<close>

definition createVaultItem :: "store \<Rightarrow> string \<Rightarrow> bool \<Rightarrow> req_context \<Rightarrow> (error + item) \<times> store" where
  "createVaultItem s content' isPublic' ctx =
     (case user ctx of
        None \<Rightarrow> (Inl NotAuthenticated, s)
      | Some u \<Rightarrow>
          let newItem = \<lparr>item_id = int (length (vault s)) + 1, ownerId = user_id u,
                         content = content', isPublic = isPublic'\<rparr>
          in (Inr newItem, s\<lparr>vault := vault s @ [newItem]\<rparr>))"

definition makeVaultItemPublic :: "store \<Rightarrow> string \<Rightarrow> req_context \<Rightarrow> (error + item) \<times> store" where
  "makeVaultItemPublic s idarg ctx =
     (case user ctx of
        None \<Rightarrow> (Inl NotAuthenticated, s)
      | Some u \<Rightarrow>
          (case findIndex (\<lambda>i. Some (item_id i) = parseInt idarg) (vault s) of
             None \<Rightarrow> (Inl ItemNotFound, s)
           | Some k \<Rightarrow>
               let item' = (vault s ! k)\<lparr>isPublic := True\<rparr>
               in (Inr item', s\<lparr>vault := (vault s)[k := item']\<rparr>)))"

section \<open>Authentication middleware (lines 156 to 172)\<close>

text \<open>
  \<open>authorization\<close> is the header of the request, \<open>None\<close> when it is absent. The body
  of the \<open>try\<close> is \<open>authMiddleware_try\<close>: it returns a context or stops with the
  error that \<open>jwt.verify\<close> throws. The \<open>catch\<close> turns every error into the empty
  context, so \<open>authMiddleware\<close> itself has no error to return.
\<close>

definition authMiddleware_try :: "env \<Rightarrow> store \<Rightarrow> int \<Rightarrow> string \<Rightarrow> error + req_context" where
  "authMiddleware_try e s now token' =
     (if token' \<noteq> [] then
        (case jwt_verify (str_replace token' ''Bearer '' []) (SECRET_KEY e) (now div 1000) of
           Inl err \<Rightarrow> Inl err
         | Inr decoded \<Rightarrow> Inr \<lparr>user = find (\<lambda>u. user_id u = userId decoded) (users s)\<rparr>)
      else Inr \<lparr>user = None\<rparr>)"

definition authMiddleware :: "env \<Rightarrow> store \<Rightarrow> int \<Rightarrow> string option \<Rightarrow> req_context" where
  "authMiddleware e s now authorization =
     (let token' = (case authorization of None \<Rightarrow> [] | Some h \<Rightarrow> h)
      in case authMiddleware_try e s now token' of
           Inl err \<Rightarrow> \<lparr>user = None\<rparr>
         | Inr ctx \<Rightarrow> ctx)"

section \<open>A concrete start-up, for evaluating the model\<close>

definition demo_env :: env where
  "demo_env = \<lparr>SECRET_KEY = ''s3cr3t'', FLAG = ''FLAG{demo}'', ADMIN_PASSWORD = ''hunter2''\<rparr>"

definition demo_store :: store where
  "demo_store = \<lparr>users = seed_users demo_env, vault = seed_vault demo_env\<rparr>"

definition stewie :: user where
  "stewie = \<lparr>user_id = 1, username = ''stewie'', password = ''hunter2'', role = ''admin''\<rparr>"

definition admiin :: user where
  "admiin = \<lparr>user_id = 2, username = ''admin'', password = ''admin'', role = ''admiin''\<rparr>"

definition user1 :: user where
  "user1 = \<lparr>user_id = 3, username = ''user1'', password = ''admin123'', role = ''user''\<rparr>"

section \<open>Properties\<close>

lemmas demo_defs =
  demo_env_def demo_store_def stewie_def admiin_def user1_def seed_users_def seed_vault_def

lemmas parseInt_defs =
  parseInt_def isWhiteSpace_def isRadixDigit_def digitValue_def radixValue_def

subsection \<open>The built-in functions\<close>

lemma startsWith_iff: "startsWith s t \<longleftrightarrow> prefix t s"
  by (induction s t rule: startsWith.induct) auto

lemma StringIndexOf_None_iff: "StringIndexOf s t k = None \<longleftrightarrow> \<not> sublist t s"
proof (induction s arbitrary: k)
  case Nil
  then show ?case by simp
next
  case (Cons d s)
  then show ?case
    by (cases t) (simp_all add: startsWith_iff sublist_Cons_right)
qed

lemma includes_iff: "str_includes s t \<longleftrightarrow> (\<exists>ps ss. s = ps @ t @ ss)"
  by (simp add: str_includes_def StringIndexOf_None_iff sublist_def)

lemma includes_empty: "str_includes s []"
  by (cases s) (simp_all add: str_includes_def)

lemma findIndex_None_iff: "findIndex p xs = None \<longleftrightarrow> (\<forall>x\<in>set xs. \<not> p x)"
  by (induction xs) auto

lemma findIndex_Some:
  "findIndex p xs = Some k \<Longrightarrow> k < length xs \<and> p (xs ! k) \<and> (\<forall>j<k. \<not> p (xs ! j))"
proof (induction xs arbitrary: k)
  case Nil
  then show ?case by simp
next
  case (Cons x xs)
  show ?case
  proof (cases "p x")
    case True
    with Cons.prems show ?thesis by simp
  next
    case False
    with Cons.prems obtain k' where k': "findIndex p xs = Some k'" "k = Suc k'"
      by auto
    from Cons.IH [OF k'(1)] False k'(2) show ?thesis
      by (auto simp: less_Suc_eq_0_disj)
  qed
qed

lemma is_digit_digit_char: "d < 10 \<Longrightarrow> is_digit (digit_char d)"
  by (simp add: is_digit_def digit_char_def)

lemma digit_value_digit_char: "d < 10 \<Longrightarrow> digit_value (digit_char d) = d"
  by (simp add: digit_value_def digit_char_def)

lemma digit_char_zero_iff: "d < 10 \<Longrightarrow> digit_char d = CHR ''0'' \<longleftrightarrow> d = 0"
proof -
  assume "d < 10"
  have "digit_char d = CHR ''0'' \<longleftrightarrow> (of_char (digit_char d) :: nat) = of_char (CHR ''0'')"
    by (simp only: of_char_eq_iff)
  also have "\<dots> \<longleftrightarrow> d = 0" using \<open>d < 10\<close> by (simp add: digit_char_def)
  finally show ?thesis .
qed

declare decimal.simps [simp del]

lemma decimal_digits: "\<forall>c\<in>set (decimal n). is_digit c"
proof (induction n rule: decimal.induct)
  case (1 n)
  show ?case
  proof (cases "n < 10")
    case True
    then show ?thesis by (simp add: decimal.simps [of n] is_digit_digit_char)
  next
    case False
    with 1 show ?thesis by (simp add: decimal.simps [of n] is_digit_digit_char)
  qed
qed

lemma decimal_not_Nil: "decimal n \<noteq> []"
  by (simp add: decimal.simps [of n])

lemma decimal_value_snoc: "decimal_value (ds @ [c]) = decimal_value ds * 10 + digit_value c"
  by (simp add: decimal_value_def)

lemma decimal_value_decimal: "decimal_value (decimal n) = n"
proof (induction n rule: decimal.induct)
  case (1 n)
  show ?case
  proof (cases "n < 10")
    case True
    then show ?thesis
      by (simp add: decimal.simps [of n] decimal_value_def digit_value_digit_char)
  next
    case False
    with 1 have "decimal_value (decimal (n div 10)) = n div 10" by simp
    with False show ?thesis
      by (simp add: decimal.simps [of n] decimal_value_snoc digit_value_digit_char)
  qed
qed

lemma hd_decimal: "hd (decimal n) = CHR ''0'' \<longleftrightarrow> n = 0"
proof (induction n rule: decimal.induct)
  case (1 n)
  show ?case
  proof (cases "n < 10")
    case True
    then show ?thesis by (simp add: decimal.simps [of n] digit_char_zero_iff)
  next
    case False
    with 1 have "hd (decimal (n div 10)) = CHR ''0'' \<longleftrightarrow> n div 10 = 0" by simp
    with False show ?thesis
      by (simp add: decimal.simps [of n] hd_append decimal_not_Nil)
  qed
qed

lemma length_decimal_0: "decimal 0 = ''0''"
  using digit_char_zero_iff [of 0] by (simp add: decimal.simps [of 0])

lemma isRadixDigit_10: "isRadixDigit 10 c = is_digit c"
  by (auto simp: isRadixDigit_def digitValue_def is_digit_def Let_def)

lemma digitValue_digit_char: "d < 10 \<Longrightarrow> digitValue (digit_char d) = Some d"
  by (simp add: digitValue_def digit_char_def Let_def)

lemma radixValue_snoc:
  "radixValue R (ds @ [c]) = radixValue R ds * R + (case digitValue c of None \<Rightarrow> 0 | Some v \<Rightarrow> v)"
  by (simp add: radixValue_def)

lemma radixValue_decimal: "radixValue 10 (decimal n) = n"
proof (induction n rule: decimal.induct)
  case (1 n)
  show ?case
  proof (cases "n < 10")
    case True
    then show ?thesis
      by (simp add: decimal.simps [of n] radixValue_def digitValue_digit_char)
  next
    case False
    with 1 have "radixValue 10 (decimal (n div 10)) = n div 10" by simp
    with False show ?thesis
      by (simp add: decimal.simps [of n] radixValue_snoc digitValue_digit_char)
  qed
qed

lemma not_whitespace_digit: "is_digit c \<Longrightarrow> \<not> isWhiteSpace c"
  by (auto simp: is_digit_def isWhiteSpace_def)

lemma decimal_Cons: "\<exists>c cs. decimal n = c # cs \<and> is_digit c \<and> (c = CHR ''0'' \<longrightarrow> n = 0)"
proof -
  obtain c cs where d: "decimal n = c # cs"
    using decimal_not_Nil [of n] by (cases "decimal n") auto
  with decimal_digits [of n] have "is_digit c" by simp
  moreover from hd_decimal [of n] d have "c = CHR ''0'' \<longrightarrow> n = 0" by simp
  ultimately show ?thesis using d by blast
qed

lemma parseInt_digits:
  assumes "id_end r"
  shows "parseInt (decimal m @ r) = Some (int m)"
    and "parseInt (CHR ''-'' # decimal m @ r) = Some (- int m)"
proof -
  obtain c cs where d: "decimal m = c # cs" and c: "is_digit c" and z: "c = CHR ''0'' \<longrightarrow> m = 0"
    using decimal_Cons [of m] by blast
  have cm: "c \<noteq> CHR ''-''" "c \<noteq> CHR ''+''" "\<not> isWhiteSpace c"
    using c by (auto simp: is_digit_def isWhiteSpace_def)
  have r: "takeWhile is_digit r = []"
    using assms by (auto simp: id_end_def split: list.splits)
  have tw: "takeWhile (isRadixDigit 10) (decimal m @ r) = decimal m"
    using decimal_digits [of m] by (simp add: isRadixDigit_10 [abs_def] takeWhile_append2 r)
  have nohex: "take 2 (decimal m @ r) \<noteq> ''0x''" "take 2 (decimal m @ r) \<noteq> ''0X''"
  proof -
    show "take 2 (decimal m @ r) \<noteq> ''0x''"
    proof (cases "m = 0")
      case True
      then show ?thesis using assms
        by (cases r) (auto simp: length_decimal_0 id_end_def)
    next
      case False
      with z d show ?thesis by auto
    qed
    show "take 2 (decimal m @ r) \<noteq> ''0X''"
    proof (cases "m = 0")
      case True
      then show ?thesis using assms
        by (cases r) (auto simp: length_decimal_0 id_end_def)
    next
      case False
      with z d show ?thesis by auto
    qed
  qed
  have ws: "dropWhile isWhiteSpace (decimal m @ r) = decimal m @ r"
    using d cm by simp
  have t1: "take 1 (decimal m @ r) \<noteq> ''-''" "take 1 (decimal m @ r) \<noteq> ''+''"
    using d cm by simp_all
  show "parseInt (decimal m @ r) = Some (int m)"
    unfolding parseInt_def Let_def
    by (simp only: ws t1 nohex tw if_False simp_thms decimal_not_Nil radixValue_decimal) simp
  have wsm: "dropWhile isWhiteSpace (CHR ''-'' # decimal m @ r) = CHR ''-'' # decimal m @ r"
    by (simp add: isWhiteSpace_def)
  have "parseInt (CHR ''-'' # decimal m @ r) =
          (let S1 = decimal m @ r;
               hex = (take 2 S1 = ''0x'' \<or> take 2 S1 = ''0X'');
               R = (if hex then 16 else 10);
               S2 = (if hex then drop 2 S1 else S1);
               Z = takeWhile (isRadixDigit R) S2
           in if Z = [] then None else Some (- 1 * int (radixValue R Z)))"
    unfolding parseInt_def wsm by (simp add: Let_def)
  also have "\<dots> = Some (- int m)"
    unfolding Let_def
    by (simp only: nohex tw if_False simp_thms decimal_not_Nil radixValue_decimal) simp
  finally show "parseInt (CHR ''-'' # decimal m @ r) = Some (- int m)" .
qed

lemma parseInt_decimal_text:
  assumes "id_end r"
  shows "parseInt (decimal_text n @ r) = Some n"
  using parseInt_digits [OF assms, of "nat n"] parseInt_digits [OF assms, of "nat (- n)"]
  by (simp add: decimal_text_def)

lemma parseInt_no_digit:
  assumes "\<forall>c\<in>set t. \<not> is_digit c"
  shows "parseInt t = None"
proof -
  define S where "S = dropWhile isWhiteSpace t"
  define S1 where "S1 = (if take 1 S = ''-'' \<or> take 1 S = ''+'' then drop 1 S else S)"
  have "set S \<subseteq> set t" unfolding S_def by (rule set_dropWhileD [THEN subsetI]) 
  moreover have "set S1 \<subseteq> set S" unfolding S1_def by (auto dest: in_set_dropD)
  ultimately have nd: "\<forall>c\<in>set S1. \<not> is_digit c" using assms by blast
  have z: "CHR ''0'' \<notin> set S1" using nd by (auto simp: is_digit_def)
  have nohex: "take 2 S1 \<noteq> ''0x''" "take 2 S1 \<noteq> ''0X''"
    using z by (cases S1; auto)+
  have "takeWhile (isRadixDigit 10) S1 = []"
    using nd by (cases S1) (auto simp: isRadixDigit_10)
  then show ?thesis
    unfolding parseInt_def Let_def S_def [symmetric] S1_def [symmetric]
    using nohex by simp
qed

subsection \<open>\<open>vaultItems\<close>\<close>

text \<open>
  C1. A call of \<open>vaultItems\<close> with a context that carries a user whose role is exactly
  \<open>''admin''\<close> returns the whole item array, unfiltered: every item of the store is in
  the result, whoever owns it and whether or not it is public.
\<close>

theorem vaultItems_admin_unfiltered:
  assumes "user ctx = Some u" and "role u = ''admin''"
  shows "vaultItems s ctx = Inr (vault s)"
  using assms by (simp add: vaultItems_def)

theorem vaultItems_admin_unfiltered_witness:
  "vaultItems demo_store \<lparr>user = Some stewie\<rparr> = Inr (seed_vault demo_env)
   \<and> \<lparr>item_id = 2, ownerId = 2, content = ''Nothing to see here'', isPublic = False\<rparr>
       \<in> set (seed_vault demo_env)"
  using vaultItems_admin_unfiltered [of "\<lparr>user = Some stewie\<rparr>" stewie demo_store]
  by (simp add: demo_defs)

text \<open>
  C2. A call of \<open>vaultItems\<close> with a context that carries a user whose role is not
  \<open>''admin''\<close> succeeds with the items that the user owns or that are public, in store
  order; so no item of the result has another owner and is not public.
\<close>

theorem vaultItems_non_admin_filtered:
  assumes "user ctx = Some u" and "role u \<noteq> ''admin''"
  shows "\<exists>r. vaultItems s ctx = Inr r
           \<and> r = filter (\<lambda>i. ownerId i = user_id u \<or> isPublic i) (vault s)
           \<and> (\<forall>i\<in>set r. ownerId i = user_id u \<or> isPublic i)
           \<and> \<not> (\<exists>i\<in>set r. ownerId i \<noteq> user_id u \<and> \<not> isPublic i)"
  using assms by (auto simp: vaultItems_def)

theorem vaultItems_non_admin_filtered_witness:
  "vaultItems demo_store \<lparr>user = Some admiin\<rparr> =
     Inr [\<lparr>item_id = 2, ownerId = 2, content = ''Nothing to see here'', isPublic = False\<rparr>,
          \<lparr>item_id = 3, ownerId = 1, content = ''Public note'', isPublic = True\<rparr>]"
  using vaultItems_non_admin_filtered [of "\<lparr>user = Some admiin\<rparr>" admiin demo_store]
  by (simp add: demo_defs)

subsection \<open>\<open>searchVault\<close>\<close>

text \<open>
  C3. For every context and every search term, \<open>searchVault\<close> returns exactly the items
  (in store order) whose content has the term as a contiguous substring and that are
  public or owned by the user of the context. An item that is not public is returned
  only to its owner, and the role of the user plays no part: replacing it by any other
  role, \<open>''admin''\<close> included, gives the same result.
\<close>

theorem searchVault_exact:
  "searchVault s searchTerm ctx =
     filter (\<lambda>i. (\<exists>ps ss. content i = ps @ searchTerm @ ss)
                 \<and> (isPublic i \<or> (\<exists>u. user ctx = Some u \<and> ownerId i = user_id u)))
       (vault s)
   \<and> (\<forall>i\<in>set (searchVault s searchTerm ctx).
        \<not> isPublic i \<longrightarrow> (\<exists>u. user ctx = Some u \<and> ownerId i = user_id u))
   \<and> (\<forall>u r. searchVault s searchTerm \<lparr>user = Some (u\<lparr>role := r\<rparr>)\<rparr>
             = searchVault s searchTerm \<lparr>user = Some u\<rparr>)"
proof (intro conjI)
  show "searchVault s searchTerm ctx =
     filter (\<lambda>i. (\<exists>ps ss. content i = ps @ searchTerm @ ss)
                 \<and> (isPublic i \<or> (\<exists>u. user ctx = Some u \<and> ownerId i = user_id u)))
       (vault s)"
    unfolding searchVault_def
    by (rule filter_cong) (auto simp: includes_iff split: option.splits)
  show "\<forall>i\<in>set (searchVault s searchTerm ctx).
        \<not> isPublic i \<longrightarrow> (\<exists>u. user ctx = Some u \<and> ownerId i = user_id u)"
    by (auto simp: searchVault_def split: option.splits)
  show "\<forall>u r. searchVault s searchTerm \<lparr>user = Some (u\<lparr>role := r\<rparr>)\<rparr>
             = searchVault s searchTerm \<lparr>user = Some u\<rparr>"
    by (simp add: searchVault_def)
qed

theorem searchVault_exact_witness:
  "searchVault demo_store ''e'' \<lparr>user = Some stewie\<rparr> =
     [\<lparr>item_id = 1, ownerId = 1, content = ''FLAG{demo}'', isPublic = False\<rparr>,
      \<lparr>item_id = 3, ownerId = 1, content = ''Public note'', isPublic = True\<rparr>]
   \<and> searchVault demo_store ''Nothing'' \<lparr>user = Some stewie\<rparr> = []
   \<and> searchVault demo_store ''Nothing'' \<lparr>user = None\<rparr> = []"
  using searchVault_exact [of demo_store "''e''" "\<lparr>user = Some stewie\<rparr>"]
  by (simp add: demo_defs searchVault_def str_includes_def)

text \<open>
  C10. With the empty string as search term, \<open>searchVault\<close> returns every item that the
  caller may see (public, or owned by the user of the context): every content contains
  the empty string.
\<close>

theorem searchVault_empty_term:
  "searchVault s [] ctx =
     filter (\<lambda>i. isPublic i \<or> (\<exists>u. user ctx = Some u \<and> ownerId i = user_id u)) (vault s)"
  unfolding searchVault_def
  by (rule filter_cong) (auto simp: includes_empty split: option.splits)

theorem searchVault_empty_term_witness:
  "searchVault demo_store [] \<lparr>user = Some admiin\<rparr> =
     [\<lparr>item_id = 2, ownerId = 2, content = ''Nothing to see here'', isPublic = False\<rparr>,
      \<lparr>item_id = 3, ownerId = 1, content = ''Public note'', isPublic = True\<rparr>]"
  using searchVault_empty_term [of demo_store "\<lparr>user = Some admiin\<rparr>"]
  by (simp add: demo_defs)

subsection \<open>\<open>createVaultItem\<close>\<close>

text \<open>
  C7. Without a user in the context, \<open>createVaultItem\<close> fails with
  \<open>Not authenticated\<close> and the store is the same afterwards (its length and its
  contents). With a user, it appends exactly one item to the store, owned by that user
  and numbered one more than the number of items before the call, and returns that item.
\<close>

theorem createVaultItem_behaviour:
  "(user ctx = None \<longrightarrow>
      createVaultItem s c p ctx = (Inl NotAuthenticated, s))
   \<and> (\<forall>u. user ctx = Some u \<longrightarrow>
        (\<exists>newItem s'. createVaultItem s c p ctx = (Inr newItem, s')
           \<and> vault s' = vault s @ [newItem]
           \<and> length (vault s') = length (vault s) + 1
           \<and> users s' = users s
           \<and> ownerId newItem = user_id u
           \<and> item_id newItem = int (length (vault s)) + 1
           \<and> content newItem = c \<and> isPublic newItem = p))"
  by (simp add: createVaultItem_def Let_def)

theorem createVaultItem_behaviour_witness:
  "createVaultItem demo_store ''note'' False \<lparr>user = None\<rparr> = (Inl NotAuthenticated, demo_store)
   \<and> createVaultItem demo_store ''note'' False \<lparr>user = Some user1\<rparr> =
       (Inr \<lparr>item_id = 5, ownerId = 3, content = ''note'', isPublic = False\<rparr>,
        \<lparr>users = seed_users demo_env,
         vault = seed_vault demo_env @
           [\<lparr>item_id = 5, ownerId = 3, content = ''note'', isPublic = False\<rparr>]\<rparr>)"
  using createVaultItem_behaviour [of "\<lparr>user = None\<rparr>" demo_store "''note''" False]
    createVaultItem_behaviour [of "\<lparr>user = Some user1\<rparr>" demo_store "''note''" False]
  by (simp add: demo_defs createVaultItem_def Let_def)

subsection \<open>\<open>makeVaultItemPublic\<close>\<close>

text \<open>
  C6, as stated, makes \<open>Item not found\<close> depend on whether an item has the id that is
  passed. The id is a text, and the code compares item numbers with \<open>parseInt(id)\<close>:
  no item of the seeded store has the id \<open>2abc\<close> or \<open>1e3\<close> (their ids are
  \<open>1\<close> to \<open>4\<close>), yet for an authenticated user the calls with these ids do not fail:
  they publish item 2 and item 1.
\<close>

theorem makeVaultItemPublic_id_text_counterexample:
  "map decimal_text (map item_id (vault demo_store)) = [''1'', ''2'', ''3'', ''4'']
   \<and> ''2abc'' \<notin> set (map decimal_text (map item_id (vault demo_store)))
   \<and> ''1e3'' \<notin> set (map decimal_text (map item_id (vault demo_store)))
   \<and> user \<lparr>user = Some user1\<rparr> \<noteq> None
   \<and> fst (makeVaultItemPublic demo_store ''2abc'' \<lparr>user = Some user1\<rparr>) \<noteq> Inl ItemNotFound
   \<and> fst (makeVaultItemPublic demo_store ''2abc'' \<lparr>user = Some user1\<rparr>) =
       Inr \<lparr>item_id = 2, ownerId = 2, content = ''Nothing to see here'', isPublic = True\<rparr>
   \<and> fst (makeVaultItemPublic demo_store ''1e3'' \<lparr>user = Some user1\<rparr>) =
       Inr \<lparr>item_id = 1, ownerId = 1, content = ''FLAG{demo}'', isPublic = True\<rparr>"
proof -
  have ids: "map decimal_text (map item_id (vault demo_store)) = [''1'', ''2'', ''3'', ''4'']"
    by code_simp
  have p: "parseInt ''2abc'' = Some 2" "parseInt ''1e3'' = Some 1"
    by (simp_all add: parseInt_defs)
  have "fst (makeVaultItemPublic demo_store ''2abc'' \<lparr>user = Some user1\<rparr>) =
       Inr \<lparr>item_id = 2, ownerId = 2, content = ''Nothing to see here'', isPublic = True\<rparr>"
    "fst (makeVaultItemPublic demo_store ''1e3'' \<lparr>user = Some user1\<rparr>) =
       Inr \<lparr>item_id = 1, ownerId = 1, content = ''FLAG{demo}'', isPublic = True\<rparr>"
    by (simp_all add: demo_defs makeVaultItemPublic_def p Let_def)
  moreover have "''2abc'' \<notin> set (map decimal_text (map item_id (vault demo_store)))"
    "''1e3'' \<notin> set (map decimal_text (map item_id (vault demo_store)))"
    by (simp_all only: ids) simp_all
  ultimately show ?thesis
    using ids by simp
qed

text \<open>
  C6, amended. \<open>makeVaultItemPublic(id)\<close> fails with \<open>Not authenticated\<close> exactly when
  the context has no user. It fails with \<open>Item not found\<close> exactly when the context has a
  user and no item of the store has the number that \<open>parseInt(id)\<close> gives. In every
  other case, whoever the user is and whoever owns the item, it sets \<open>isPublic\<close> of the
  first item with that number to true and returns that item. The number that
  \<open>parseInt(id)\<close> gives is read from the start of the text: when \<open>id\<close> is the decimal
  text of an integer \<open>n\<close>, alone or followed by text that starts with neither a digit
  nor \<open>x\<close>, it is \<open>n\<close>, so the call fails with \<open>Item not found\<close> exactly when the
  context has a user and no item has the number \<open>n\<close>; when \<open>id\<close> has no digit at
  all there is no number, and the call of a user fails with \<open>Item not found\<close>.
\<close>

theorem makeVaultItemPublic_outcomes:
  "(fst (makeVaultItemPublic s idarg ctx) = Inl NotAuthenticated \<longleftrightarrow> user ctx = None)
   \<and> (fst (makeVaultItemPublic s idarg ctx) = Inl ItemNotFound \<longleftrightarrow>
        user ctx \<noteq> None \<and> \<not> (\<exists>i\<in>set (vault s). Some (item_id i) = parseInt idarg))
   \<and> (user ctx \<noteq> None \<and> (\<exists>i\<in>set (vault s). Some (item_id i) = parseInt idarg) \<longrightarrow>
        (\<exists>k<length (vault s).
            Some (item_id (vault s ! k)) = parseInt idarg
          \<and> (\<forall>j<k. Some (item_id (vault s ! j)) \<noteq> parseInt idarg)
          \<and> makeVaultItemPublic s idarg ctx =
              (Inr ((vault s ! k)\<lparr>isPublic := True\<rparr>),
               s\<lparr>vault := (vault s)[k := (vault s ! k)\<lparr>isPublic := True\<rparr>]\<rparr>)))
   \<and> (\<forall>n r. idarg = decimal_text n @ r \<and> id_end r \<longrightarrow>
          parseInt idarg = Some n
        \<and> (fst (makeVaultItemPublic s idarg ctx) = Inl ItemNotFound \<longleftrightarrow>
             user ctx \<noteq> None \<and> \<not> (\<exists>i\<in>set (vault s). item_id i = n)))
   \<and> ((\<forall>c\<in>set idarg. \<not> is_digit c) \<longrightarrow>
          parseInt idarg = None
        \<and> (user ctx \<noteq> None \<longrightarrow> fst (makeVaultItemPublic s idarg ctx) = Inl ItemNotFound))"
proof -
  have main: "(fst (makeVaultItemPublic s idarg ctx) = Inl NotAuthenticated \<longleftrightarrow> user ctx = None)
   \<and> (fst (makeVaultItemPublic s idarg ctx) = Inl ItemNotFound \<longleftrightarrow>
        user ctx \<noteq> None \<and> \<not> (\<exists>i\<in>set (vault s). Some (item_id i) = parseInt idarg))
   \<and> (user ctx \<noteq> None \<and> (\<exists>i\<in>set (vault s). Some (item_id i) = parseInt idarg) \<longrightarrow>
        (\<exists>k<length (vault s).
            Some (item_id (vault s ! k)) = parseInt idarg
          \<and> (\<forall>j<k. Some (item_id (vault s ! j)) \<noteq> parseInt idarg)
          \<and> makeVaultItemPublic s idarg ctx =
              (Inr ((vault s ! k)\<lparr>isPublic := True\<rparr>),
               s\<lparr>vault := (vault s)[k := (vault s ! k)\<lparr>isPublic := True\<rparr>]\<rparr>)))"
    (is "?A \<and> ?B \<and> ?C")
  proof (cases "user ctx")
    case None
    then show ?thesis by (simp add: makeVaultItemPublic_def)
  next
    case (Some u)
    show ?thesis
    proof (cases "findIndex (\<lambda>i. Some (item_id i) = parseInt idarg) (vault s)")
      case None
      then have "\<not> (\<exists>i\<in>set (vault s). Some (item_id i) = parseInt idarg)"
        by (simp add: findIndex_None_iff)
      with None Some show ?thesis by (simp add: makeVaultItemPublic_def)
    next
      case (Some k)
      note idx = findIndex_Some [OF Some]
      from idx have ex: "\<exists>i\<in>set (vault s). Some (item_id i) = parseInt idarg"
        using nth_mem by blast
      have run: "makeVaultItemPublic s idarg ctx =
                (Inr ((vault s ! k)\<lparr>isPublic := True\<rparr>),
                 s\<lparr>vault := (vault s)[k := (vault s ! k)\<lparr>isPublic := True\<rparr>]\<rparr>)"
        using Some \<open>user ctx = Some u\<close> by (simp add: makeVaultItemPublic_def Let_def)
      have "\<exists>k<length (vault s).
              Some (item_id (vault s ! k)) = parseInt idarg
            \<and> (\<forall>j<k. Some (item_id (vault s ! j)) \<noteq> parseInt idarg)
            \<and> makeVaultItemPublic s idarg ctx =
                (Inr ((vault s ! k)\<lparr>isPublic := True\<rparr>),
                 s\<lparr>vault := (vault s)[k := (vault s ! k)\<lparr>isPublic := True\<rparr>]\<rparr>)"
        using idx run by blast
      with ex run \<open>user ctx = Some u\<close> show ?thesis by simp
    qed
  qed
  then have A: ?A and B: ?B and C: ?C by blast+
  have D: "\<forall>n r. idarg = decimal_text n @ r \<and> id_end r \<longrightarrow>
          parseInt idarg = Some n
        \<and> (fst (makeVaultItemPublic s idarg ctx) = Inl ItemNotFound \<longleftrightarrow>
             user ctx \<noteq> None \<and> \<not> (\<exists>i\<in>set (vault s). item_id i = n))"
  proof (intro allI impI)
    fix n r
    assume "idarg = decimal_text n @ r \<and> id_end r"
    then have "parseInt idarg = Some n"
      by (simp add: parseInt_decimal_text)
    with B show "parseInt idarg = Some n
        \<and> (fst (makeVaultItemPublic s idarg ctx) = Inl ItemNotFound \<longleftrightarrow>
             user ctx \<noteq> None \<and> \<not> (\<exists>i\<in>set (vault s). item_id i = n))"
      by simp
  qed
  have E: "(\<forall>c\<in>set idarg. \<not> is_digit c) \<longrightarrow>
          parseInt idarg = None
        \<and> (user ctx \<noteq> None \<longrightarrow> fst (makeVaultItemPublic s idarg ctx) = Inl ItemNotFound)"
  proof
    assume "\<forall>c\<in>set idarg. \<not> is_digit c"
    then have "parseInt idarg = None"
      by (rule parseInt_no_digit)
    with B show "parseInt idarg = None
        \<and> (user ctx \<noteq> None \<longrightarrow> fst (makeVaultItemPublic s idarg ctx) = Inl ItemNotFound)"
      by simp
  qed
  from A B C D E show ?thesis by blast
qed

theorem makeVaultItemPublic_outcomes_witness:
  "fst (makeVaultItemPublic demo_store ''2'' \<lparr>user = None\<rparr>) = Inl NotAuthenticated
   \<and> fst (makeVaultItemPublic demo_store ''7'' \<lparr>user = Some user1\<rparr>) = Inl ItemNotFound
   \<and> fst (makeVaultItemPublic demo_store ''two'' \<lparr>user = Some user1\<rparr>) = Inl ItemNotFound
   \<and> parseInt ''two'' = None
   \<and> parseInt (decimal_text 2 @ ''abc'') = Some 2
   \<and> makeVaultItemPublic demo_store ''2'' \<lparr>user = Some user1\<rparr> =
       (Inr \<lparr>item_id = 2, ownerId = 2, content = ''Nothing to see here'', isPublic = True\<rparr>,
        \<lparr>users = seed_users demo_env,
         vault = (seed_vault demo_env)
           [1 := \<lparr>item_id = 2, ownerId = 2, content = ''Nothing to see here'', isPublic = True\<rparr>]\<rparr>)"
proof -
  have nd: "\<forall>c\<in>set ''two''. \<not> is_digit c"
    by (simp add: is_digit_def)
  have e: "id_end ''abc''"
    by (simp add: id_end_def is_digit_def)
  from makeVaultItemPublic_outcomes [of demo_store "''two''" "\<lparr>user = Some user1\<rparr>"] nd
  have two: "parseInt ''two'' = None"
    "fst (makeVaultItemPublic demo_store ''two'' \<lparr>user = Some user1\<rparr>) = Inl ItemNotFound"
    by simp_all
  from makeVaultItemPublic_outcomes [of demo_store "decimal_text 2 @ ''abc''" "\<lparr>user = Some user1\<rparr>"] e
  have abc: "parseInt (decimal_text 2 @ ''abc'') = Some 2"
    by blast
  have rest: "fst (makeVaultItemPublic demo_store ''2'' \<lparr>user = None\<rparr>) = Inl NotAuthenticated"
    "fst (makeVaultItemPublic demo_store ''7'' \<lparr>user = Some user1\<rparr>) = Inl ItemNotFound"
    "makeVaultItemPublic demo_store ''2'' \<lparr>user = Some user1\<rparr> =
       (Inr \<lparr>item_id = 2, ownerId = 2, content = ''Nothing to see here'', isPublic = True\<rparr>,
        \<lparr>users = seed_users demo_env,
         vault = (seed_vault demo_env)
           [1 := \<lparr>item_id = 2, ownerId = 2, content = ''Nothing to see here'', isPublic = True\<rparr>]\<rparr>)"
    by (simp_all add: demo_defs makeVaultItemPublic_def parseInt_defs Let_def)
  from two abc rest show ?thesis by simp
qed

text \<open>
  C9. Whenever \<open>makeVaultItemPublic\<close> succeeds, the store after the call differs from
  the store before it in the \<open>isPublic\<close> field of the targeted item only: the number,
  the owner and the content of that item, every other item of the store (and the number of
  items), and the users are as before.
\<close>

theorem makeVaultItemPublic_frame:
  assumes "makeVaultItemPublic s idarg ctx = (Inr it, s')"
  shows "users s' = users s
       \<and> length (vault s') = length (vault s)
       \<and> (\<exists>k<length (vault s).
             Some (item_id (vault s ! k)) = parseInt idarg
           \<and> vault s' ! k = it
           \<and> item_id it = item_id (vault s ! k)
           \<and> ownerId it = ownerId (vault s ! k)
           \<and> content it = content (vault s ! k)
           \<and> isPublic it
           \<and> (\<forall>j<length (vault s). j \<noteq> k \<longrightarrow> vault s' ! j = vault s ! j))"
proof -
  from assms obtain u where u: "user ctx = Some u"
    by (auto simp: makeVaultItemPublic_def split: option.splits)
  from assms u obtain k where k: "findIndex (\<lambda>i. Some (item_id i) = parseInt idarg) (vault s) = Some k"
    by (auto simp: makeVaultItemPublic_def split: option.splits)
  note idx = findIndex_Some [OF k]
  from assms u k have it: "it = (vault s ! k)\<lparr>isPublic := True\<rparr>"
    and s': "s' = s\<lparr>vault := (vault s)[k := (vault s ! k)\<lparr>isPublic := True\<rparr>]\<rparr>"
    by (auto simp: makeVaultItemPublic_def Let_def)
  have "users s' = users s" "length (vault s') = length (vault s)"
    by (simp_all add: s')
  moreover have "Some (item_id (vault s ! k)) = parseInt idarg" "k < length (vault s)"
    using idx by simp_all
  moreover have "vault s' ! k = it"
    using idx by (simp add: s' it)
  moreover have "item_id it = item_id (vault s ! k)" "ownerId it = ownerId (vault s ! k)"
    "content it = content (vault s ! k)" "isPublic it"
    by (simp_all add: it)
  moreover have "\<forall>j<length (vault s). j \<noteq> k \<longrightarrow> vault s' ! j = vault s ! j"
    by (simp add: s')
  ultimately show ?thesis by blast
qed

theorem makeVaultItemPublic_frame_witness:
  "makeVaultItemPublic demo_store ''2'' \<lparr>user = Some stewie\<rparr> =
       (Inr \<lparr>item_id = 2, ownerId = 2, content = ''Nothing to see here'', isPublic = True\<rparr>,
        \<lparr>users = seed_users demo_env,
         vault = [\<lparr>item_id = 1, ownerId = 1, content = ''FLAG{demo}'', isPublic = False\<rparr>,
                  \<lparr>item_id = 2, ownerId = 2, content = ''Nothing to see here'', isPublic = True\<rparr>,
                  \<lparr>item_id = 3, ownerId = 1, content = ''Public note'', isPublic = True\<rparr>,
                  \<lparr>item_id = 4, ownerId = 1, content = ''FAKE_FLAG{dummy_flag}'', isPublic = False\<rparr>]\<rparr>)
   \<and> users (snd (makeVaultItemPublic demo_store ''2'' \<lparr>user = Some stewie\<rparr>)) = users demo_store
   \<and> length (vault (snd (makeVaultItemPublic demo_store ''2'' \<lparr>user = Some stewie\<rparr>))) = 4"
proof -
  have run: "makeVaultItemPublic demo_store ''2'' \<lparr>user = Some stewie\<rparr> =
       (Inr \<lparr>item_id = 2, ownerId = 2, content = ''Nothing to see here'', isPublic = True\<rparr>,
        \<lparr>users = seed_users demo_env,
         vault = [\<lparr>item_id = 1, ownerId = 1, content = ''FLAG{demo}'', isPublic = False\<rparr>,
                  \<lparr>item_id = 2, ownerId = 2, content = ''Nothing to see here'', isPublic = True\<rparr>,
                  \<lparr>item_id = 3, ownerId = 1, content = ''Public note'', isPublic = True\<rparr>,
                  \<lparr>item_id = 4, ownerId = 1, content = ''FAKE_FLAG{dummy_flag}'', isPublic = False\<rparr>]\<rparr>)"
    by (simp add: demo_defs makeVaultItemPublic_def parseInt_defs Let_def)
  from makeVaultItemPublic_frame [OF run] run show ?thesis
    by (simp add: demo_defs)
qed

subsection \<open>The seeded store\<close>

text \<open>
  C8, as stated, says that identity 1 of the seeded store is not an administrator. The
  seed says otherwise: the user numbered 1 is \<open>stewie\<close>, whose role is \<open>''admin''\<close>,
  and no other user has that number.
\<close>

theorem seed_identity_1_non_admin_counterexample:
  "map user_id (seed_users demo_env) = [1, 2, 3]
   \<and> user_id (seed_users demo_env ! 0) = 1
   \<and> \<not> (role (seed_users demo_env ! 0) \<noteq> ''admin'')"
  by (simp add: seed_users_def)

text \<open>
  C8, amended. After start-up, item 2 is owned by identity 2 and is not public; identity
  1 has the role \<open>''admin''\<close>, and identity 3 is neither an administrator nor the owner of
  item 2. When identity 1, or identity 3, is the user of the context (the user that
  \<open>users.find\<close> gives for that number) and calls \<open>makeVaultItemPublic(2)\<close>, the call
  succeeds and returns item 2 with \<open>isPublic\<close> true, and \<open>publicVaultItems\<close> on the
  store after the call, which reads no context, includes item 2.
\<close>

theorem seed_publish_item_2:
  assumes "startup e = Some s"
  shows "(\<exists>i. find (\<lambda>i. item_id i = 2) (vault s) = Some i \<and> ownerId i = 2 \<and> \<not> isPublic i)
       \<and> (\<exists>u. find (\<lambda>u. user_id u = 1) (users s) = Some u \<and> role u = ''admin'')
       \<and> (\<exists>u. find (\<lambda>u. user_id u = 3) (users s) = Some u \<and> role u \<noteq> ''admin'' \<and> user_id u \<noteq> 2)
       \<and> (\<forall>n\<in>{1, 3}. \<exists>it s'.
             makeVaultItemPublic s ''2'' \<lparr>user = find (\<lambda>u. user_id u = n) (users s)\<rparr> = (Inr it, s')
           \<and> item_id it = 2 \<and> ownerId it = 2 \<and> isPublic it
           \<and> find (\<lambda>i. item_id i = 2) (vault s') = Some it
           \<and> it \<in> set (publicVaultItems s'))"
proof -
  from assms have s: "s = \<lparr>users = seed_users e, vault = seed_vault e\<rparr>"
    by (simp add: startup_def split: if_splits)
  have two: "parseInt ''2'' = Some 2"
    by (simp add: parseInt_defs)
  have "\<exists>i. find (\<lambda>i. item_id i = 2) (vault s) = Some i \<and> ownerId i = 2 \<and> \<not> isPublic i"
    by (simp add: s seed_vault_def)
  moreover have "\<exists>u. find (\<lambda>u. user_id u = 1) (users s) = Some u \<and> role u = ''admin''"
    by (simp add: s seed_users_def)
  moreover have "\<exists>u. find (\<lambda>u. user_id u = 3) (users s) = Some u \<and> role u \<noteq> ''admin'' \<and> user_id u \<noteq> 2"
    by (simp add: s seed_users_def)
  moreover have "\<forall>n\<in>{1, 3}. \<exists>it s'.
             makeVaultItemPublic s ''2'' \<lparr>user = find (\<lambda>u. user_id u = n) (users s)\<rparr> = (Inr it, s')
           \<and> item_id it = 2 \<and> ownerId it = 2 \<and> isPublic it
           \<and> find (\<lambda>i. item_id i = 2) (vault s') = Some it
           \<and> it \<in> set (publicVaultItems s')"
    by (simp add: s seed_users_def seed_vault_def makeVaultItemPublic_def two Let_def
        publicVaultItems_def)
  ultimately show ?thesis by blast
qed

theorem seed_publish_item_2_witness:
  "startup demo_env = Some demo_store
   \<and> makeVaultItemPublic demo_store ''2'' \<lparr>user = find (\<lambda>u. user_id u = 1) (users demo_store)\<rparr> =
       (Inr \<lparr>item_id = 2, ownerId = 2, content = ''Nothing to see here'', isPublic = True\<rparr>,
        \<lparr>users = seed_users demo_env,
         vault = [\<lparr>item_id = 1, ownerId = 1, content = ''FLAG{demo}'', isPublic = False\<rparr>,
                  \<lparr>item_id = 2, ownerId = 2, content = ''Nothing to see here'', isPublic = True\<rparr>,
                  \<lparr>item_id = 3, ownerId = 1, content = ''Public note'', isPublic = True\<rparr>,
                  \<lparr>item_id = 4, ownerId = 1, content = ''FAKE_FLAG{dummy_flag}'', isPublic = False\<rparr>]\<rparr>)
   \<and> publicVaultItems
        (snd (makeVaultItemPublic demo_store ''2'' \<lparr>user = find (\<lambda>u. user_id u = 1) (users demo_store)\<rparr>)) =
       [\<lparr>item_id = 2, ownerId = 2, content = ''Nothing to see here'', isPublic = True\<rparr>,
        \<lparr>item_id = 3, ownerId = 1, content = ''Public note'', isPublic = True\<rparr>]"
proof -
  have up: "startup demo_env = Some demo_store"
    by (simp add: startup_def demo_env_def demo_store_def)
  from seed_publish_item_2 [OF up] up show ?thesis
    by (simp add: demo_defs makeVaultItemPublic_def parseInt_defs Let_def publicVaultItems_def)
qed

subsection \<open>The token library\<close>

lemma b64value_b64char: "n < 64 \<Longrightarrow> b64value (b64char n) = Some n"
  by (auto simp: b64value_def b64char_def Let_def)

lemma sextets_lt: "\<forall>a\<in>set bs. a < 256 \<Longrightarrow> \<forall>v\<in>set (sextets bs). v < 64"
  by (induction bs rule: sextets.induct) (auto simp: less_mult_imp_div_less)

lemma octets_sextets: "\<forall>a\<in>set bs. a < 256 \<Longrightarrow> octets (sextets bs) = bs"
proof (induction bs rule: sextets.induct)
  case (1 a b c r)
  then have "b < 256" "c < 256" by simp_all
  then have "b div 16 < 16" "c div 64 < 4" by simp_all
  with 1 show ?case by simp
next
  case (2 a b)
  then have "b < 256" by simp
  then have "b div 16 < 16" by simp
  then show ?case by simp
qed simp_all

lemma base64url_alphabet: "\<forall>c\<in>set (base64url s). b64value c \<noteq> None"
  using sextets_lt [of "map of_char s"]
  by (auto simp: base64url_def b64value_b64char)

lemma base64url_decode_encode: "base64url_decode (base64url s) = Some s"
proof -
  have v: "\<forall>v\<in>set (sextets (map of_char s)). v < 64"
    by (rule sextets_lt) simp
  have "map (\<lambda>c. the (b64value c)) (base64url s) = sextets (map of_char s)"
    unfolding base64url_def map_map
    by (rule trans [OF map_cong [OF refl, of _ _ id]]) (use v in \<open>auto simp: b64value_b64char\<close>)
  then show ?thesis
    using base64url_alphabet [of s]
    by (simp add: base64url_decode_def list_all_iff octets_sextets comp_def)
qed

lemma not_digit_minus: "\<not> is_digit (CHR ''-'')"
  by (simp add: is_digit_def)

lemma parse_decimal:
  assumes "number_end r"
  shows "takeWhile is_digit (decimal n @ r) = decimal n" "dropWhile is_digit (decimal n @ r) = r"
proof -
  have r: "takeWhile is_digit r = []" "dropWhile is_digit r = r"
    using assms by (auto simp: number_end_def split: list.splits)
  show "takeWhile is_digit (decimal n @ r) = decimal n"
    using decimal_digits [of n] by (simp add: takeWhile_append2 r)
  show "dropWhile is_digit (decimal n @ r) = r"
    using decimal_digits [of n] by (simp add: dropWhile_append2 r)
qed

lemma take1_decimal: "take 1 (decimal n @ r) \<noteq> ''-''"
proof -
  obtain c cs where d: "decimal n = c # cs"
    using decimal_not_Nil [of n] by (cases "decimal n") auto
  with decimal_digits [of n] have "is_digit c" by simp
  with not_digit_minus have "c \<noteq> CHR ''-''" by auto
  with d show ?thesis by simp
qed

lemma parse_number_decimal_text:
  assumes "number_end r"
  shows "parse_number (decimal_text i @ r) = Some (i, r)"
proof -
  have lead: "\<not> (hd (decimal n) = CHR ''0'' \<and> length (decimal n) > 1)" for n
    by (cases "n = 0") (simp_all add: hd_decimal length_decimal_0)
  have ends: "take 1 r \<noteq> ''.''" "take 1 r \<noteq> ''e''" "take 1 r \<noteq> ''E''"
    using assms by (auto simp: number_end_def split: list.splits)
  show ?thesis
  proof (cases "i < 0")
    case True
    then show ?thesis
      using lead [of "nat (- i)"] ends
      by (simp add: parse_number_def decimal_text_def parse_decimal [OF assms]
          decimal_not_Nil decimal_value_decimal Let_def)
  next
    case False
    then show ?thesis
      using lead [of "nat i"] ends take1_decimal [of "nat i" r]
      by (simp add: parse_number_def decimal_text_def parse_decimal [OF assms]
          decimal_not_Nil decimal_value_decimal Let_def)
  qed
qed

lemma hex4_hex_char:
  assumes "n < 32"
  shows "hex4 (CHR ''0'') (CHR ''0'') (hex_char (n div 16)) (hex_char (n mod 16)) = Some n"
proof -
  have d: "digitValue (hex_char d) = Some d" if "d < 16" for d
    using that by (auto simp: digitValue_def hex_char_def Let_def)
  have z: "digitValue (CHR ''0'') = Some 0"
    by (simp add: digitValue_def)
  from assms have "n div 16 < 16" "n mod 16 < 16" by simp_all
  then show ?thesis
    by (simp add: hex4_def d z)
qed

lemma string_body_escape:
  "string_body (escape_char c @ t) = map_option (\<lambda>(s, t). (c # s, t)) (string_body t)"
proof -
  consider (special) "c \<in> {CHR 0x22, CHR 0x5C, CHR 0x08, CHR 0x09, CHR 0x0A, CHR 0x0C, CHR 0x0D}"
    | (control) "c \<notin> {CHR 0x22, CHR 0x5C, CHR 0x08, CHR 0x09, CHR 0x0A, CHR 0x0C, CHR 0x0D}"
        "(of_char c :: nat) < 32"
    | (plain) "c \<notin> {CHR 0x22, CHR 0x5C, CHR 0x08, CHR 0x09, CHR 0x0A, CHR 0x0C, CHR 0x0D}"
        "\<not> (of_char c :: nat) < 32"
    by blast
  then show ?thesis
  proof cases
    case special
    then show ?thesis
      by (auto simp: escape_char_def simple_escape_def)
  next
    case control
    then show ?thesis
      by (simp add: escape_char_def hex4_hex_char)
  next
    case plain
    then show ?thesis
      by (simp add: escape_char_def)
  qed
qed

lemma string_body_quoted:
  "string_body (concat (map escape_char s) @ CHR 0x22 # rest) = Some (s, rest)"
  by (induction s) (simp_all add: string_body_escape del: string_body.simps(2), simp)

lemma parse_string_json_string: "parse_string (json_string s @ rest) = Some (s, rest)"
  by (simp add: parse_string_def json_string_def string_body_quoted del: string_body.simps)

lemma expect_append: "expect lit (lit @ t) = Some t"
  by (simp add: expect_def)

lemma parse_header_header_json: "parse_header header_json = Some ''HS256''"
  by (simp add: parse_header_def header_json_def expect_def parse_string_def)

lemma parse_payload_payload_json: "parse_payload (payload_json p) = Some p"
proof -
  have "parse_payload (payload_json p)
      = Some \<lparr>userId = userId p, role_claim = role_claim p, exp = exp p, iat = iat p\<rparr>"
    unfolding parse_payload_def payload_json_def
    apply (subst expect_append)
    apply (simp only: bind.bind_lunit)
    apply (subst parse_number_decimal_text)
     apply (simp add: number_end_def is_digit_def)
    apply (simp only: bind.bind_lunit prod.case)
    apply (subst expect_append)
    apply (simp only: bind.bind_lunit)
    apply (subst parse_string_json_string)
    apply (simp only: bind.bind_lunit prod.case)
    apply (subst expect_append)
    apply (simp only: bind.bind_lunit)
    apply (subst parse_number_decimal_text)
     apply (simp add: number_end_def is_digit_def)
    apply (simp only: bind.bind_lunit prod.case)
    apply (subst expect_append)
    apply (simp only: bind.bind_lunit)
    apply (subst parse_number_decimal_text)
     apply (simp add: number_end_def is_digit_def)
    apply (simp only: bind.bind_lunit prod.case)
    apply simp
    done
  then show ?thesis by simp
qed

lemma split_dot_no_dot: "CHR ''.'' \<notin> set a \<Longrightarrow> split_dot a = [a]"
  by (induction a) auto

lemma split_dot_append:
  "CHR ''.'' \<notin> set a \<Longrightarrow> split_dot (a @ CHR ''.'' # r) = a # split_dot r"
  by (induction a) auto

lemma b64value_dot: "b64value (CHR ''.'') = None" and b64value_space: "b64value (CHR '' '') = None"
  by (simp_all add: b64value_def)

lemma base64url_no_dot: "CHR ''.'' \<notin> set (base64url s)"
  using base64url_alphabet [of s] b64value_dot by auto

lemma base64url_no_space: "CHR '' '' \<notin> set (base64url s)"
  using base64url_alphabet [of s] b64value_space by auto

lemma base64url_Nil_iff: "base64url s = [] \<longleftrightarrow> s = []"
proof -
  have "sextets bs = [] \<longleftrightarrow> bs = []" for bs
    by (induction bs rule: sextets.induct) simp_all
  then show ?thesis by (simp add: base64url_def)
qed

lemma length_round256: "length v = 8 \<Longrightarrow> length (round256 kw v) = 8"
proof -
  assume "length v = 8"
  then obtain a b c d e f g h where "v = [a, b, c, d, e, f, g, h]"
    by (auto simp: numeral_eq_Suc length_Suc_conv)
  then show ?thesis by (simp add: round256_def Let_def)
qed

lemma length_fold_round256: "length v = 8 \<Longrightarrow> length (fold round256 kws v) = 8"
  by (induction kws arbitrary: v) (simp_all add: length_round256)

lemma length_compress: "length H = 8 \<Longrightarrow> length (compress b H) = 8"
  by (simp add: compress_def length_fold_round256)

lemma length_fold_compress: "length H = 8 \<Longrightarrow> length (fold compress bs H) = 8"
  by (induction bs arbitrary: H) (simp_all add: length_compress)

lemma length_sha256: "length (sha256 m) = 32"
proof -
  have "length (fold compress (blocks (sha256_pad m)) H256) = 8"
    by (rule length_fold_compress) (simp add: H256_def)
  then show ?thesis
    by (simp add: sha256_def length_concat comp_def sum_list_triv)
qed

lemma length_hmac_sha256: "length (hmac_sha256 key msg) = 32"
  by (simp add: hmac_sha256_def Let_def length_sha256)

lemma hs256_not_Nil: "hs256 key input \<noteq> []"
proof -
  have "map char_of (hmac_sha256 (map of_char key) (map of_char input)) \<noteq> ([] :: string)"
    using length_hmac_sha256 [of "map of_char key" "map of_char input"] by auto
  then show ?thesis by (simp add: hs256_def base64url_Nil_iff)
qed

lemma payload_json_not_Nil: "payload_json d \<noteq> []" and header_json_not_Nil: "header_json \<noteq> []"
  by (simp_all add: payload_json_def header_json_def)

lemma jwt_verify_token:
  assumes key: "key \<noteq> []"
  shows "jwt_verify (base64url header_json @ ''.'' @ base64url (payload_json d) @ ''.''
                      @ hs256 key (base64url header_json @ ''.'' @ base64url (payload_json d)))
           key clock
       = (if clock \<ge> exp d then Inl (Error ''jwt expired'') else Inr d)"
proof -
  define h where "h = base64url header_json"
  define p where "p = base64url (payload_json d)"
  define sg where "sg = hs256 key (h @ ''.'' @ p)"
  have nodot: "CHR ''.'' \<notin> set h" "CHR ''.'' \<notin> set p" "CHR ''.'' \<notin> set sg"
    by (simp_all add: h_def p_def sg_def hs256_def base64url_no_dot)
  have split: "split_dot (h @ ''.'' @ p @ ''.'' @ sg) = [h, p, sg]"
    using nodot by (simp add: split_dot_append split_dot_no_dot)
  have dh: "Option.bind (base64url_decode h) parse_header = Some ''HS256''"
    by (simp add: h_def base64url_decode_encode parse_header_header_json)
  have dp: "Option.bind (base64url_decode p) parse_payload = Some d"
    by (simp add: p_def base64url_decode_encode parse_payload_payload_json)
  have ne: "h \<noteq> []" "p \<noteq> []" "sg \<noteq> []" "base64url_decode sg \<noteq> None"
    by (simp_all add: h_def p_def sg_def base64url_Nil_iff payload_json_not_Nil
        header_json_not_Nil hs256_not_Nil, simp add: hs256_def base64url_decode_encode)
  have "jwt_verify (h @ ''.'' @ p @ ''.'' @ sg) key clock
      = (if clock \<ge> exp d then Inl (Error ''jwt expired'') else Inr d)"
    unfolding jwt_verify_def split using key dh dp ne
    by (auto simp: sg_def)
  then show ?thesis by (simp add: h_def p_def sg_def)
qed

subsection \<open>Tokens of \<open>login\<close> and the middleware\<close>

lemma str_replace_Bearer_prefix: "str_replace (''Bearer '' @ t) ''Bearer '' [] = t"
  by simp


lemma hs256_alphabet: "\<forall>c\<in>set (hs256 key input). b64value c \<noteq> None"
  by (simp add: hs256_def base64url_alphabet)

lemma jwt_sign_result:
  assumes "key \<noteq> []"
  shows "\<exists>t. jwt_sign payload key ts = Inr t
           \<and> CHR '' '' \<notin> set t \<and> t \<noteq> []
           \<and> (\<forall>clock. jwt_verify t key clock =
                 (if clock \<ge> exp payload then Inl (Error ''jwt expired'')
                  else Inr \<lparr>userId = userId payload, role_claim = role_claim payload,
                            exp = exp payload, iat = ts\<rparr>))"
proof -
  define d where "d = \<lparr>userId = userId payload, role_claim = role_claim payload,
                        exp = exp payload, iat = ts\<rparr>"
  define t where "t = base64url header_json @ ''.'' @ base64url (payload_json d) @ ''.''
                      @ hs256 key (base64url header_json @ ''.'' @ base64url (payload_json d))"
  have sign: "jwt_sign payload key ts = Inr t"
    using assms by (simp add: jwt_sign_def Let_def t_def d_def)
  have "CHR '' '' \<notin> set (hs256 key input)" for input
    using hs256_alphabet [of key input] b64value_space by auto
  then have nospace: "CHR '' '' \<notin> set t"
    by (simp add: t_def base64url_no_space)
  have "t \<noteq> []"
    by (simp add: t_def)
  moreover have "jwt_verify t key clock =
                 (if clock \<ge> exp payload then Inl (Error ''jwt expired'') else Inr d)" for clock
    using jwt_verify_token [OF assms, of d clock] by (simp add: t_def d_def)
  ultimately show ?thesis
    using sign nospace by (auto simp: d_def)
qed

lemma seed_login_find:
  assumes "u \<in> set (seed_users e)"
  shows "find (\<lambda>v. username v = username u \<and> password v = password u) (seed_users e) = Some u"
    and "find (\<lambda>v. user_id v = user_id u) (seed_users e) = Some u"
  using assms by (auto simp: seed_users_def)

lemma jwt_verify_wrong_signature:
  assumes "CHR ''.'' \<notin> set sg'"
    and "sg' \<noteq> hs256 key (base64url header_json @ ''.'' @ base64url (payload_json d))"
  shows "\<exists>err. jwt_verify (base64url header_json @ ''.'' @ base64url (payload_json d) @ ''.'' @ sg')
                 key clock = Inl err"
proof -
  define h where "h = base64url header_json"
  define p where "p = base64url (payload_json d)"
  have split: "split_dot (h @ ''.'' @ p @ ''.'' @ sg') = [h, p, sg']"
    using assms(1) by (simp add: split_dot_append split_dot_no_dot h_def p_def base64url_no_dot)
  have dh: "Option.bind (base64url_decode h) parse_header = Some ''HS256''"
    by (simp add: h_def base64url_decode_encode parse_header_header_json)
  have dp: "Option.bind (base64url_decode p) parse_payload = Some d"
    by (simp add: p_def base64url_decode_encode parse_payload_payload_json)
  have "\<exists>err. jwt_verify (h @ ''.'' @ p @ ''.'' @ sg') key clock = Inl err"
    unfolding jwt_verify_def split using dh dp assms(2)
    by (simp add: h_def p_def)
  then show ?thesis by (simp add: h_def p_def)
qed

lemma login_token:
  assumes "startup e = Some s" and "u \<in> set (users s)"
  shows "\<exists>t. login e s now now_sign (username u) (password u) = Inr \<lparr>token = t, authUser = u\<rparr>
           \<and> CHR '' '' \<notin> set t \<and> t \<noteq> []
           \<and> (\<forall>clock. jwt_verify t (SECRET_KEY e) clock =
                 (if clock \<ge> now div 1000 + 3600 then Inl (Error ''jwt expired'')
                  else Inr \<lparr>userId = user_id u, role_claim = role u,
                            exp = now div 1000 + 3600, iat = now_sign div 1000\<rparr>))"
proof -
  from assms(1) have key: "SECRET_KEY e \<noteq> []" and s: "s = \<lparr>users = seed_users e, vault = seed_vault e\<rparr>"
    by (simp_all add: startup_def split: if_splits)
  from assms(2) s have mem: "u \<in> set (seed_users e)" by simp
  define payload where "payload = \<lparr>userId = user_id u, role_claim = role u, exp = now div 1000 + 60 * 60\<rparr>"
  from jwt_sign_result [OF key, of payload "now_sign div 1000"]
  obtain t where t: "jwt_sign payload (SECRET_KEY e) (now_sign div 1000) = Inr t"
    and nospace: "CHR '' '' \<notin> set t" and ne: "t \<noteq> []"
    and verify: "\<And>clock. jwt_verify t (SECRET_KEY e) clock =
                 (if clock \<ge> exp payload then Inl (Error ''jwt expired'')
                  else Inr \<lparr>userId = userId payload, role_claim = role_claim payload,
                            exp = exp payload, iat = now_sign div 1000\<rparr>)"
    by blast
  have login: "login e s now now_sign (username u) (password u) = Inr \<lparr>token = t, authUser = u\<rparr>"
    using t by (simp add: login_def s seed_login_find(1) [OF mem] payload_def)
  have "jwt_verify t (SECRET_KEY e) clock =
                 (if clock \<ge> now div 1000 + 3600 then Inl (Error ''jwt expired'')
                  else Inr \<lparr>userId = user_id u, role_claim = role u,
                            exp = now div 1000 + 3600, iat = now_sign div 1000\<rparr>)" for clock
    by (simp add: verify payload_def)
  with login nospace ne show ?thesis by blast
qed

text \<open>
  A token of \<open>login\<close> presented when its hour is over is refused by \<open>jwt.verify\<close>, and
  the middleware builds the context without a user.
\<close>

lemma authMiddleware_expired_token:
  assumes "startup e = Some s" and "u \<in> set (users s)"
    and "login e s now now_sign (username u) (password u) = Inr r"
    and "later div 1000 \<ge> now div 1000 + 3600"
  shows "authMiddleware e s later (Some (''Bearer '' @ token r)) = \<lparr>user = None\<rparr>"
proof -
  from login_token [OF assms(1,2), of now now_sign] assms(3)
  have v: "jwt_verify (token r) (SECRET_KEY e) (later div 1000) = Inl (Error ''jwt expired'')"
    using assms(4) by auto
  show ?thesis
    unfolding authMiddleware_def authMiddleware_try_def
    by (simp only: option.case Let_def str_replace_Bearer_prefix v) simp
qed

subsection \<open>\<open>authMiddleware\<close>\<close>

text \<open>
  C4. \<open>authMiddleware\<close> returns a context for every request and has no error result.
  Without an \<open>authorization\<close> header, or with an empty one, the context has no user.
  With a header, whenever \<open>jwt.verify\<close> fails on it, whatever the error (malformed text,
  signature that does not match, expired claims), and whenever it succeeds with a
  \<open>userId\<close> that no user of the store has, the context has no user either. So a
  context has a user only when the token verifies and the store has the user it names.
\<close>

theorem authMiddleware_fail_open:
  "authMiddleware e s now None = \<lparr>user = None\<rparr>
   \<and> authMiddleware e s now (Some []) = \<lparr>user = None\<rparr>
   \<and> (\<forall>h err. jwt_verify (str_replace h ''Bearer '' []) (SECRET_KEY e) (now div 1000) = Inl err
          \<longrightarrow> authMiddleware e s now (Some h) = \<lparr>user = None\<rparr>)
   \<and> (\<forall>h d. jwt_verify (str_replace h ''Bearer '' []) (SECRET_KEY e) (now div 1000) = Inr d
            \<and> (\<forall>u\<in>set (users s). user_id u \<noteq> userId d)
          \<longrightarrow> authMiddleware e s now (Some h) = \<lparr>user = None\<rparr>)
   \<and> (\<forall>a u. user (authMiddleware e s now a) = Some u
          \<longrightarrow> (\<exists>h d. a = Some h \<and> h \<noteq> []
                \<and> jwt_verify (str_replace h ''Bearer '' []) (SECRET_KEY e) (now div 1000) = Inr d
                \<and> u \<in> set (users s) \<and> user_id u = userId d))"
proof (intro conjI allI impI)
  show "authMiddleware e s now None = \<lparr>user = None\<rparr>"
    by (simp add: authMiddleware_def authMiddleware_try_def)
  show "authMiddleware e s now (Some []) = \<lparr>user = None\<rparr>"
    by (simp add: authMiddleware_def authMiddleware_try_def)
next
  fix h err
  assume "jwt_verify (str_replace h ''Bearer '' []) (SECRET_KEY e) (now div 1000) = Inl err"
  then show "authMiddleware e s now (Some h) = \<lparr>user = None\<rparr>"
    by (simp add: authMiddleware_def authMiddleware_try_def)
next
  fix h d
  assume a: "jwt_verify (str_replace h ''Bearer '' []) (SECRET_KEY e) (now div 1000) = Inr d
            \<and> (\<forall>u\<in>set (users s). user_id u \<noteq> userId d)"
  then have "find (\<lambda>u. user_id u = userId d) (users s) = None"
    by (simp add: find_None_iff)
  with a show "authMiddleware e s now (Some h) = \<lparr>user = None\<rparr>"
    by (simp add: authMiddleware_def authMiddleware_try_def)
next
  fix a u
  assume u: "user (authMiddleware e s now a) = Some u"
  then obtain h where h: "a = Some h" "h \<noteq> []"
    by (cases a; cases "the a = []") (auto simp: authMiddleware_def authMiddleware_try_def)
  with u obtain d where d: "jwt_verify (str_replace h ''Bearer '' []) (SECRET_KEY e) (now div 1000) = Inr d"
    by (cases "jwt_verify (str_replace h ''Bearer '' []) (SECRET_KEY e) (now div 1000)")
       (auto simp: authMiddleware_def authMiddleware_try_def)
  with u h have "find (\<lambda>u. user_id u = userId d) (users s) = Some u"
    by (simp add: authMiddleware_def authMiddleware_try_def)
  then have "u \<in> set (users s) \<and> user_id u = userId d"
    by (auto simp: find_Some_iff)
  with h d show "\<exists>h d. a = Some h \<and> h \<noteq> []
                \<and> jwt_verify (str_replace h ''Bearer '' []) (SECRET_KEY e) (now div 1000) = Inr d
                \<and> u \<in> set (users s) \<and> user_id u = userId d"
    by blast
qed

theorem authMiddleware_fail_open_witness:
  "jwt_verify (str_replace ''Bearer not-a-token'' ''Bearer '' []) (SECRET_KEY demo_env) 1700000000
     = Inl (Error ''jwt malformed'')
   \<and> authMiddleware demo_env demo_store 1700000000000 (Some ''Bearer not-a-token'') = \<lparr>user = None\<rparr>
   \<and> authMiddleware demo_env demo_store 1700000000000 None = \<lparr>user = None\<rparr>"
proof -
  have bad: "jwt_verify (str_replace ''Bearer not-a-token'' ''Bearer '' []) (SECRET_KEY demo_env)
               (1700000000000 div 1000) = Inl (Error ''jwt malformed'')"
    by (simp add: jwt_verify_def)
  from authMiddleware_fail_open [of demo_env demo_store 1700000000000] bad show ?thesis
    by simp
qed

subsection \<open>\<open>login\<close>\<close>




end
